theory Spec2Isabelle
  imports Main
begin

section \<open>The standalone SIP server of the AI voice connector (\<^verbatim>\<open>src/standalone.py\<close>)\<close>

text \<open>
  The module defines one class, \<^verbatim>\<open>AsyncSIPServerProtocol\<close>, an \<^verbatim>\<open>asyncio.Protocol\<close> with the
  fields \<^verbatim>\<open>transport\<close>, \<^verbatim>\<open>client_address\<close>, \<^verbatim>\<open>did\<close> and \<^verbatim>\<open>currentCall\<close>, the methods
  \<^verbatim>\<open>data_received\<close> and \<^verbatim>\<open>create_response\<close>, and the function \<^verbatim>\<open>generate_unique_string\<close>.
  The model follows the Python text statement by statement. Every exception an expression
  can raise is a value \<open>Inl e\<close>; the object's fields are a record that is passed in and
  returned, also when an exception leaves the method, since assignments made before the
  raise stay. Output on stdout (\<^verbatim>\<open>print\<close>, \<^verbatim>\<open>logging\<close>) is not part of the model.
\<close>

subsection \<open>Python values: bytes, str, exceptions\<close>

text \<open>
  A \<^verbatim>\<open>bytes\<close> object is a list of 8-bit characters. A \<^verbatim>\<open>str\<close> is a list of Unicode code
  points, so that \<^verbatim>\<open>len\<close> counts code points as Python does. \<open>str\<close> turns an ASCII literal
  into such a list.
\<close>

type_synonym bytes = "char list"
type_synonym pystr = "nat list"

abbreviation str :: "string \<Rightarrow> pystr" where
  "str s \<equiv> map of_char s"

datatype exn =
    TypeError
  | IndexError
  | ValueError
  | NameError
  | UnboundLocalError
  | AttributeError
  | UnicodeDecodeError
  | UnicodeEncodeError
  | Raised string

text \<open>
  \<open>Raised name\<close> is an exception raised inside one of the imported collaborators
  (\<^verbatim>\<open>sip.SIPMessage\<close>, \<^verbatim>\<open>aiortc.sdp.SessionDescription\<close>, \<^verbatim>\<open>call.Call\<close>,
  \<^verbatim>\<open>utils.get_ai_flavor\<close>). Every value of \<open>exn\<close> stands for a subclass of \<^verbatim>\<open>Exception\<close>,
  which is what the two handlers of \<^verbatim>\<open>data_received\<close> catch.
\<close>

text \<open>The literals \<^verbatim>\<open>"\r\n"\<close> (a \<^verbatim>\<open>str\<close>) and \<^verbatim>\<open>b"\r\n\r\n"\<close> (\<^verbatim>\<open>bytes\<close>).\<close>

definition CRLF :: pystr where
  "CRLF = [13, 10]"

definition CRLFCRLF :: bytes where
  "CRLFCRLF = [CHR 0x0D, CHR 0x0A, CHR 0x0D, CHR 0x0A]"

text \<open>\<^verbatim>\<open>sep.join(parts)\<close>, for \<^verbatim>\<open>str\<close> and for \<^verbatim>\<open>bytes\<close>.\<close>

fun join :: "'a list \<Rightarrow> 'a list list \<Rightarrow> 'a list" where
  "join sep [] = []"
| "join sep [x] = x"
| "join sep (x # y # ys) = x @ sep @ join sep (y # ys)"

text \<open>
  \<^verbatim>\<open>s.startswith(p)\<close>.
\<close>

definition startswith :: "'a list \<Rightarrow> 'a list \<Rightarrow> bool" where
  "startswith s p = (take (length p) s = p)"

text \<open>
  \<^verbatim>\<open>s.split(sep)\<close> with a separator and no \<^verbatim>\<open>maxsplit\<close>: the text is cut at every
  occurrence of \<open>sep\<close>, searched from left to right without overlap, and all the pieces are
  returned (one more than the number of occurrences). \<open>acc\<close> holds the current piece,
  reversed. Python raises \<^verbatim>\<open>ValueError\<close> for an empty separator; both separators of this
  module are non-empty literals.
\<close>

function split_from :: "'a list \<Rightarrow> 'a list \<Rightarrow> 'a list \<Rightarrow> 'a list list" where
  "split_from sep acc [] = [rev acc]"
| "split_from sep acc (x # xs) =
     (if sep \<noteq> [] \<and> take (length sep) (x # xs) = sep
      then rev acc # split_from sep [] (drop (length sep) (x # xs))
      else split_from sep (x # acc) xs)"
  by pat_completeness auto
termination
  by (relation "measure (\<lambda>(sep, acc, xs). length xs)") (auto simp: neq_Nil_conv)

definition split :: "'a list \<Rightarrow> 'a list \<Rightarrow> 'a list list" where
  "split s sep = split_from sep [] s"

text \<open>\<^verbatim>\<open>str(n)\<close> for a length \<open>n\<close>: its decimal digits.\<close>

fun str_of_nat :: "nat \<Rightarrow> pystr" where
  "str_of_nat n = (if n < 10 then [48 + n] else str_of_nat (n div 10) @ [48 + n mod 10])"

declare str_of_nat.simps [simp del]

subsection \<open>UTF-8\<close>

text \<open>
  \<^verbatim>\<open>s.encode('utf-8')\<close>: one to four bytes per code point; a surrogate
  (\<open>0xD800\<close> to \<open>0xDFFF\<close>) raises \<^verbatim>\<open>UnicodeEncodeError\<close>. A \<^verbatim>\<open>str\<close> holds no code point
  from \<open>0x110000\<close> on; the model raises there as well.
\<close>

definition utf8_bytes :: "nat \<Rightarrow> exn + nat list" where
  "utf8_bytes c =
     (if c < 0x80 then Inr [c]
      else if c < 0x800 then Inr [0xC0 + c div 64, 0x80 + c mod 64]
      else if 0xD800 \<le> c \<and> c < 0xE000 then Inl UnicodeEncodeError
      else if c < 0x10000 then
        Inr [0xE0 + c div 4096, 0x80 + (c div 64) mod 64, 0x80 + c mod 64]
      else if c < 0x110000 then
        Inr [0xF0 + c div 262144, 0x80 + (c div 4096) mod 64,
             0x80 + (c div 64) mod 64, 0x80 + c mod 64]
      else Inl UnicodeEncodeError)"

fun encode_nat :: "pystr \<Rightarrow> exn + nat list" where
  "encode_nat [] = Inr []"
| "encode_nat (c # cs) =
     (case utf8_bytes c of
        Inl e \<Rightarrow> Inl e
      | Inr bs \<Rightarrow> (case encode_nat cs of Inl e \<Rightarrow> Inl e | Inr r \<Rightarrow> Inr (bs @ r)))"

definition encode_utf8 :: "pystr \<Rightarrow> exn + bytes" where
  "encode_utf8 s = (case encode_nat s of Inl e \<Rightarrow> Inl e | Inr bs \<Rightarrow> Inr (map char_of bs))"

text \<open>
  \<^verbatim>\<open>b.decode('utf-8')\<close>, strict: a byte that starts no well-formed sequence, a missing or
  wrong continuation byte, an overlong form, a surrogate and a value above \<open>0x10FFFF\<close>
  all raise \<^verbatim>\<open>UnicodeDecodeError\<close>.
\<close>

definition is_cont :: "nat \<Rightarrow> bool" where
  "is_cont b = (0x80 \<le> b \<and> b < 0xC0)"

text \<open>
  The second byte of a three- or four-byte sequence has a narrower range after the lead
  bytes \<open>0xE0\<close> and \<open>0xF0\<close> (no overlong form), \<open>0xED\<close> (no surrogate) and \<open>0xF4\<close>
  (nothing above \<open>0x10FFFF\<close>).
\<close>

definition second_lo :: "nat \<Rightarrow> nat" where
  "second_lo b0 = (if b0 = 0xE0 then 0xA0 else if b0 = 0xF0 then 0x90 else 0x80)"

definition second_hi :: "nat \<Rightarrow> nat" where
  "second_hi b0 = (if b0 = 0xED then 0xA0 else if b0 = 0xF4 then 0x90 else 0xC0)"

fun decode_nat :: "nat list \<Rightarrow> exn + pystr" where
  "decode_nat [] = Inr []"
| "decode_nat (b0 # bs) =
     (if b0 < 0x80 then
        (case decode_nat bs of Inl e \<Rightarrow> Inl e | Inr r \<Rightarrow> Inr (b0 # r))
      else if 0xC2 \<le> b0 \<and> b0 < 0xE0 then
        (case bs of
           b1 # r1 \<Rightarrow>
             if is_cont b1 then
               (case decode_nat r1 of
                  Inl e \<Rightarrow> Inl e
                | Inr r \<Rightarrow> Inr (((b0 - 0xC0) * 64 + (b1 - 0x80)) # r))
             else Inl UnicodeDecodeError
         | [] \<Rightarrow> Inl UnicodeDecodeError)
      else if 0xE0 \<le> b0 \<and> b0 < 0xF0 then
        (case bs of
           b1 # b2 # r2 \<Rightarrow>
             if second_lo b0 \<le> b1 \<and> b1 < second_hi b0 \<and> is_cont b2 then
               (case decode_nat r2 of
                  Inl e \<Rightarrow> Inl e
                | Inr r \<Rightarrow>
                    Inr (((b0 - 0xE0) * 4096 + (b1 - 0x80) * 64 + (b2 - 0x80)) # r))
             else Inl UnicodeDecodeError
         | _ \<Rightarrow> Inl UnicodeDecodeError)
      else if 0xF0 \<le> b0 \<and> b0 < 0xF5 then
        (case bs of
           b1 # b2 # b3 # r3 \<Rightarrow>
             if second_lo b0 \<le> b1 \<and> b1 < second_hi b0 \<and> is_cont b2 \<and> is_cont b3 then
               (case decode_nat r3 of
                  Inl e \<Rightarrow> Inl e
                | Inr r \<Rightarrow>
                    Inr (((b0 - 0xF0) * 262144 + (b1 - 0x80) * 4096
                          + (b2 - 0x80) * 64 + (b3 - 0x80)) # r))
             else Inl UnicodeDecodeError
         | _ \<Rightarrow> Inl UnicodeDecodeError)
      else Inl UnicodeDecodeError)"

definition decode_utf8 :: "bytes \<Rightarrow> exn + pystr" where
  "decode_utf8 b = decode_nat (map of_char b)"

subsection \<open>The parsed request and the collaborators\<close>

text \<open>
  \<^verbatim>\<open>SIPMessage(data)\<close> comes from the imported module \<^verbatim>\<open>sip\<close>. The code reads
  \<^verbatim>\<open>message.method\<close> (the field \<open>method'\<close> here, \<open>method\<close> being a keyword) and,
  through \<^verbatim>\<open>headers.get(name)\<close>, five headers: \<^verbatim>\<open>Via\<close> (a list of entries with
  \<^verbatim>\<open>'type'\<close>, \<^verbatim>\<open>'address'\<close> and \<^verbatim>\<open>'branch'\<close>), \<^verbatim>\<open>To\<close> and \<^verbatim>\<open>From\<close> (entries with
  \<^verbatim>\<open>'raw'\<close>), \<^verbatim>\<open>Call-ID\<close> (a string) and \<^verbatim>\<open>CSeq\<close> (an entry with \<^verbatim>\<open>'check'\<close> and
  \<^verbatim>\<open>'method'\<close>). \<^verbatim>\<open>dict.get\<close> returns \<^verbatim>\<open>None\<close> for a header that is absent, so each
  header is optional here, and the \<^verbatim>\<open>Via\<close> list may be empty.
\<close>

record via_entry =
  via_type :: pystr
  via_address :: "pystr list"
  via_branch :: pystr

record name_addr =
  raw :: pystr

record cseq_entry =
  cseq_check :: pystr
  cseq_method :: pystr

record sip_headers =
  hdr_Via :: "via_entry list option"
  hdr_To :: "name_addr option"
  hdr_From :: "name_addr option"
  hdr_Call_ID :: "pystr option"
  hdr_CSeq :: "cseq_entry option"

record sip_message =
  method' :: pystr
  headers :: sip_headers

text \<open>
  What the module imports or reads from its configuration, as parameters: the two parsers,
  \<^verbatim>\<open>get_ai_flavor\<close>, the constructor \<^verbatim>\<open>Call\<close> with its method \<^verbatim>\<open>get_body\<close>, and \<^verbatim>\<open>ADV_IP\<close>.
  \<open>params\<close> is the lookup of the global name \<^verbatim>\<open>params\<close> that line 109 evaluates:
  \<open>None\<close> when the name is unbound. The module as it stands binds no such name.
\<close>

record ('sdp, 'prm, 'flv, 'call) env =
  SIPMessage :: "bytes \<Rightarrow> exn + sip_message"
  SessionDescription_parse :: "pystr \<Rightarrow> exn + 'sdp"
  params :: "'prm option"
  get_ai_flavor :: "'prm \<Rightarrow> exn + 'flv"
  Call :: "pystr \<Rightarrow> 'sdp \<Rightarrow> 'flv \<Rightarrow> exn + 'call"
  get_body :: "'call \<Rightarrow> exn + pystr"
  ADV_IP :: pystr

subsection \<open>The protocol object\<close>

text \<open>
  The transport is asyncio's: \<^verbatim>\<open>write\<close> queues a chunk for the peer and does not raise,
  \<^verbatim>\<open>close\<close> closes the connection. \<open>written\<close> lists the chunks in the order of the calls.
\<close>

record transport_state =
  peername :: "pystr option"
  written :: "bytes list"
  closed :: bool

record 'call protocol =
  transport :: "transport_state option"
  client_address :: "pystr option"
  did :: pystr
  currentCall :: "'call option"

text \<open>
  \<^verbatim>\<open>generate_unique_string(length=8)\<close> joins \<open>length\<close> characters, each
  \<^verbatim>\<open>secrets.choice(characters)\<close>, which is \<^verbatim>\<open>characters[randbelow(62)]\<close>. The random source is
  a parameter: \<open>rnd i\<close> is the \<open>i\<close>-th draw of the system's generator, reduced below 62.
\<close>

definition characters :: pystr where
  "characters = str ''abcdefghijklmnopqrstuvwxyzABCDEFGHIJKLMNOPQRSTUVWXYZ0123456789''"

definition generate_unique_string :: "(nat \<Rightarrow> nat) \<Rightarrow> nat \<Rightarrow> pystr" where
  "generate_unique_string rnd length' =
     map (\<lambda>i. characters ! (rnd i mod 62)) [0..<length']"

definition init :: "(nat \<Rightarrow> nat) \<Rightarrow> 'call protocol" where
  "init rnd =
     \<lparr>transport = None, client_address = None,
      did = generate_unique_string rnd 8, currentCall = None\<rparr>"

definition connection_made :: "transport_state \<Rightarrow> 'call protocol \<Rightarrow> 'call protocol" where
  "connection_made t self = self\<lparr>transport := Some t, client_address := peername t\<rparr>"

text \<open>
  \<^verbatim>\<open>self.transport.write(chunk)\<close> and \<^verbatim>\<open>self.transport.close()\<close>; on \<^verbatim>\<open>None\<close> the attribute
  lookup raises.
\<close>

definition transport_write :: "bytes \<Rightarrow> 'call protocol \<Rightarrow> exn + 'call protocol" where
  "transport_write chunk self =
     (case transport self of
        None \<Rightarrow> Inl AttributeError
      | Some t \<Rightarrow> Inr (self\<lparr>transport := Some (t\<lparr>written := written t @ [chunk]\<rparr>)\<rparr>))"

definition transport_close :: "'call protocol \<Rightarrow> exn + 'call protocol" where
  "transport_close self =
     (case transport self of
        None \<Rightarrow> Inl AttributeError
      | Some t \<Rightarrow> Inr (self\<lparr>transport := Some (t\<lparr>closed := True\<rparr>)\<rparr>))"

subsection \<open>\<^verbatim>\<open>create_response\<close>\<close>

text \<open>
  The list \<^verbatim>\<open>response_lines\<close> of lines 138 to 150, its elements evaluated in order, so the
  first header that is missing decides the exception: subscripting \<^verbatim>\<open>None\<close> and adding
  \<^verbatim>\<open>None\<close> to a string raise \<^verbatim>\<open>TypeError\<close>, \<^verbatim>\<open>[0]\<close> on an empty list raises \<^verbatim>\<open>IndexError\<close>.
\<close>

definition via_line :: "sip_headers \<Rightarrow> exn + pystr" where
  "via_line h =
     (case hdr_Via h of
        None \<Rightarrow> Inl TypeError
      | Some [] \<Rightarrow> Inl IndexError
      | Some (v # _) \<Rightarrow>
          Inr (str ''Via: '' @ via_type v @ str '' '' @ join (str '':'') (via_address v)
               @ str '':branch='' @ via_branch v))"

definition to_line :: "pystr \<Rightarrow> sip_headers \<Rightarrow> exn + pystr" where
  "to_line tag h =
     (case hdr_To h of
        None \<Rightarrow> Inl TypeError
      | Some t \<Rightarrow> Inr (str ''To: '' @ raw t @ str '';tag='' @ tag))"

definition from_line :: "sip_headers \<Rightarrow> exn + pystr" where
  "from_line h =
     (case hdr_From h of
        None \<Rightarrow> Inl TypeError
      | Some f \<Rightarrow> Inr (str ''From: '' @ raw f))"

definition call_id_line :: "sip_headers \<Rightarrow> exn + pystr" where
  "call_id_line h =
     (case hdr_Call_ID h of
        None \<Rightarrow> Inl TypeError
      | Some c \<Rightarrow> Inr (str ''Call-ID: '' @ c))"

definition cseq_line :: "sip_headers \<Rightarrow> exn + pystr" where
  "cseq_line h =
     (case hdr_CSeq h of
        None \<Rightarrow> Inl TypeError
      | Some c \<Rightarrow> Inr (str ''CSeq: '' @ cseq_check c @ str '' '' @ cseq_method c))"

definition response_lines ::
  "('sdp, 'prm, 'flv, 'call) env \<Rightarrow> 'call protocol \<Rightarrow> sip_message \<Rightarrow> pystr \<Rightarrow> pystr
     \<Rightarrow> exn + pystr list" where
  "response_lines env self request status_line body =
     (case via_line (headers request) of Inl e \<Rightarrow> Inl e | Inr l_via \<Rightarrow>
      case to_line (did self) (headers request) of Inl e \<Rightarrow> Inl e | Inr l_to \<Rightarrow>
      case from_line (headers request) of Inl e \<Rightarrow> Inl e | Inr l_from \<Rightarrow>
      case call_id_line (headers request) of Inl e \<Rightarrow> Inl e | Inr l_call_id \<Rightarrow>
      case cseq_line (headers request) of Inl e \<Rightarrow> Inl e | Inr l_cseq \<Rightarrow>
        Inr [str ''SIP/2.0 '' @ status_line,
             l_via,
             l_to,
             l_from,
             l_call_id,
             str ''Contact:'' @ str '' <sip:ai@'' @ ADV_IP env @ str '';transport=tcp>'',
             l_cseq,
             str ''Allow: INVITE, ACK, CANCEL, OPTIONS, BYE'',
             str ''Content-Length: '' @ str_of_nat (length body),
             [],
             body])"

definition create_response ::
  "('sdp, 'prm, 'flv, 'call) env \<Rightarrow> 'call protocol \<Rightarrow> sip_message \<Rightarrow> pystr \<Rightarrow> pystr
     \<Rightarrow> exn + pystr" where
  "create_response env self request status_line body =
     (case response_lines env self request status_line body of
        Inl e \<Rightarrow> Inl e
      | Inr ls \<Rightarrow> Inr (join CRLF ls))"

subsection \<open>\<^verbatim>\<open>data_received\<close>\<close>

text \<open>
  The result is the exception that leaves the method (\<open>None\<close> when it returns) and the
  object afterwards.

  \<open>send\<close> is \<^verbatim>\<open>self.transport.write(response.encode('utf-8'))\<close>: the attribute
  \<^verbatim>\<open>self.transport.write\<close> is looked up before the argument is evaluated. In the last
  statement of the method (line 134) the local \<^verbatim>\<open>response\<close> may be unbound, which is
  \<open>None\<close> here.
\<close>

definition send :: "pystr option \<Rightarrow> 'call protocol \<Rightarrow> exn + 'call protocol" where
  "send response self =
     (case transport self of
        None \<Rightarrow> Inl AttributeError
      | Some _ \<Rightarrow>
          (case response of
             None \<Rightarrow> Inl UnboundLocalError
           | Some r \<Rightarrow>
               (case encode_utf8 r of
                  Inl e \<Rightarrow> Inl e
                | Inr chunk \<Rightarrow> transport_write chunk self)))"

text \<open>Lines 133 to 135, where every branch of the method ends.\<close>

definition send_response ::
  "pystr option \<Rightarrow> 'call protocol \<Rightarrow> exn option \<times> 'call protocol" where
  "send_response response self =
     (case send response self of
        Inl e \<Rightarrow> (Some e, self)
      | Inr self' \<Rightarrow> (None, self'))"

text \<open>\<^verbatim>\<open>headers, body = parts\<close>: exactly two values, or \<^verbatim>\<open>ValueError\<close>.\<close>

definition unpack2 :: "'a list \<Rightarrow> exn + 'a \<times> 'a" where
  "unpack2 parts = (case parts of [a, b] \<Rightarrow> Inr (a, b) | _ \<Rightarrow> Inl ValueError)"

text \<open>Lines 87 and 88: the body without its \<^verbatim>\<open>a=rtcp:\<close> lines.\<close>

definition strip_rtcp :: "pystr \<Rightarrow> pystr" where
  "strip_rtcp oldSDP =
     join (str ''\<newline>'')
       (filter (\<lambda>line. \<not> startswith line (str ''a=rtcp:'')) (split oldSDP (str ''\<newline>'')))"

text \<open>
  The body of the \<^verbatim>\<open>try\<close> of lines 107 to 112: the value bound to \<^verbatim>\<open>response\<close>, or the
  exception, and the object, whose \<^verbatim>\<open>currentCall\<close> is assigned as soon as \<^verbatim>\<open>Call\<close> has
  returned. The arguments of \<^verbatim>\<open>Call\<close> are evaluated first, \<^verbatim>\<open>params\<close> among them.
\<close>

definition create_call ::
  "('sdp, 'prm, 'flv, 'call) env \<Rightarrow> sip_message \<Rightarrow> 'sdp \<Rightarrow> 'call protocol
     \<Rightarrow> (exn + pystr) \<times> 'call protocol" where
  "create_call env message sdp self =
     (case params env of
        None \<Rightarrow> (Inl NameError, self)
      | Some p \<Rightarrow>
     (case get_ai_flavor env p of
        Inl e \<Rightarrow> (Inl e, self)
      | Inr flavor \<Rightarrow>
     (case Call env (did self) sdp flavor of
        Inl e \<Rightarrow> (Inl e, self)
      | Inr c \<Rightarrow>
          (let self' = self\<lparr>currentCall := Some c\<rparr> in
           case get_body env c of
             Inl e \<Rightarrow> (Inl e, self')
           | Inr answer \<Rightarrow> (create_response env self' message (str ''200 OK'') answer, self')))))"

text \<open>The \<^verbatim>\<open>INVITE\<close> branch, lines 78 to 118, and the final write.\<close>

definition invite ::
  "('sdp, 'prm, 'flv, 'call) env \<Rightarrow> sip_message \<Rightarrow> bytes \<Rightarrow> 'call protocol
     \<Rightarrow> exn option \<times> 'call protocol" where
  "invite env message data self =
     (case create_response env self message (str ''100 Trying'') [] of
        Inl e \<Rightarrow> (Some e, self)
      | Inr trying \<Rightarrow>
     (case send (Some trying) self of
        Inl e \<Rightarrow> (Some e, self)
      | Inr self1 \<Rightarrow>
     (case unpack2 (split data CRLFCRLF) of
        Inl e \<Rightarrow> (Some e, self1)
      | Inr (hdrs, body) \<Rightarrow>
     (case decode_utf8 body of
        Inl e \<Rightarrow> (Some e, self1)
      | Inr oldSDP \<Rightarrow>
     (case SessionDescription_parse env (strip_rtcp oldSDP) of
        Inl e \<Rightarrow> (Some e, self1)
      | Inr sdp \<Rightarrow>
     (case create_call env message sdp self1 of
        (Inr response, self2) \<Rightarrow> send_response (Some response) self2
      | (Inl e, self2) \<Rightarrow>
          (case create_response env self2 message (str ''500 Internal Server Error'') [] of
             Inl e' \<Rightarrow> (Some e', self2)
           | Inr response \<Rightarrow> send_response (Some response) self2)))))))"

definition data_received ::
  "('sdp, 'prm, 'flv, 'call) env \<Rightarrow> bytes \<Rightarrow> 'call protocol
     \<Rightarrow> exn option \<times> 'call protocol" where
  "data_received env data self =
     (case SIPMessage env data of
        Inl e \<Rightarrow>
          (case transport_close self of
             Inl e' \<Rightarrow> (Some e', self)
           | Inr self' \<Rightarrow> (None, self'))
      | Inr message \<Rightarrow>
          if method' message = str ''INVITE'' then invite env message data self
          else if method' message = str ''OPTIONS'' then
            (case create_response env self message (str ''200 OK'') [] of
               Inl e \<Rightarrow> (Some e, self)
             | Inr response \<Rightarrow> send_response (Some response) self)
          else if method' message = str ''BYE'' then
            (case create_response env self message (str ''200 OK'') [] of
               Inl e \<Rightarrow> (Some e, self)
             | Inr response \<Rightarrow> send_response (Some response) self)
          else if method' message = str ''ACK'' then send_response None self
          else
            (case create_response env self message (str ''501 Not Implemented'') [] of
               Inl e \<Rightarrow> (Some e, self)
             | Inr response \<Rightarrow> send_response (Some response) self))"

subsection \<open>Sample requests\<close>

text \<open>
  Concrete requests on which the code is run below. \<open>request_text m cid body\<close> is the wire
  text of a request with method \<open>m\<close> and Call-ID \<open>cid\<close>, from the peer \<open>10.0.0.1\<close>, with Via
  branch \<open>z9hG4bK1\<close> and From tag \<open>f1\<close>: the header block \<open>request_head m cid\<close>, a blank
  line, the body. \<open>request_view m cid\<close> is the structured message the parser hands over
  for it.
\<close>

definition crlf :: bytes where
  "crlf = [CHR 0x0D, CHR 0x0A]"

definition request_head :: "string \<Rightarrow> string \<Rightarrow> bytes" where
  "request_head m cid =
     m @ '' sip:ai@10.0.0.2 SIP/2.0'' @ crlf
     @ ''Via: SIP/2.0/TCP 10.0.0.1:5060;branch=z9hG4bK1'' @ crlf
     @ ''To: <sip:ai@10.0.0.2>'' @ crlf
     @ ''From: <sip:alice@10.0.0.1>;tag=f1'' @ crlf
     @ ''Call-ID: '' @ cid @ crlf
     @ ''CSeq: 1 '' @ m"

definition request_text :: "string \<Rightarrow> string \<Rightarrow> bytes \<Rightarrow> bytes" where
  "request_text m cid body = request_head m cid @ crlf @ crlf @ body"

definition request_view :: "string \<Rightarrow> string \<Rightarrow> sip_message" where
  "request_view m cid =
     \<lparr>method' = str m,
      headers =
        \<lparr>hdr_Via = Some [\<lparr>via_type = str ''SIP/2.0/TCP'',
                           via_address = [str ''10.0.0.1'', str ''5060''],
                           via_branch = str ''z9hG4bK1''\<rparr>],
         hdr_To = Some \<lparr>raw = str ''<sip:ai@10.0.0.2>''\<rparr>,
         hdr_From = Some \<lparr>raw = str ''<sip:alice@10.0.0.1>;tag=f1''\<rparr>,
         hdr_Call_ID = Some (str cid),
         hdr_CSeq = Some \<lparr>cseq_check = str ''1'', cseq_method = str m\<rparr>\<rparr>\<rparr>"

text \<open>
  Bodies: an SDP offer with one \<^verbatim>\<open>m=audio\<close> line; the same offer ending with an empty
  line; a multipart body, whose part is separated from its own header by a blank line; a
  description whose version line holds no number; and text without any SDP line.
\<close>

definition offer :: bytes where
  "offer = ''v=0'' @ crlf @ ''m=audio 4000 RTP/AVP 0'' @ crlf"

definition offer_blank_line :: bytes where
  "offer_blank_line = offer @ crlf"

definition multipart :: bytes where
  "multipart =
     ''--b1'' @ crlf @ ''Content-Type: application/sdp'' @ crlf @ crlf
     @ offer @ ''--b1--'' @ crlf"

definition bad_version :: bytes where
  "bad_version = ''v=x''"

definition no_sdp_line :: bytes where
  "no_sdp_line = ''hello''"

definition sample_requests :: "(bytes \<times> sip_message) list" where
  "sample_requests =
     [(request_text ''INVITE'' ''abc123'' offer, request_view ''INVITE'' ''abc123''),
      (request_text ''INVITE'' ''xyz789'' offer, request_view ''INVITE'' ''xyz789''),
      (request_text ''INVITE'' ''abc123'' offer_blank_line, request_view ''INVITE'' ''abc123''),
      (request_text ''INVITE'' ''abc123'' multipart, request_view ''INVITE'' ''abc123''),
      (request_text ''INVITE'' ''abc123'' bad_version, request_view ''INVITE'' ''abc123''),
      (request_text ''INVITE'' ''abc123'' no_sdp_line, request_view ''INVITE'' ''abc123''),
      (request_text ''ACK'' ''abc123'' [], request_view ''ACK'' ''abc123''),
      (request_text ''BYE'' ''abc123'' [], request_view ''BYE'' ''abc123''),
      (request_text ''OPTIONS'' ''abc123'' [], request_view ''OPTIONS'' ''abc123''),
      (request_text ''INFO'' ''abc123'' [], request_view ''INFO'' ''abc123'')]"

text \<open>
  Stand-ins for the collaborators, which are not part of this module: a parser that knows
  the sample requests and raises on anything else, a session-description parser, and a
  \<^verbatim>\<open>Call\<close> that answers with a fixed description. \<open>sample_env\<close> has \<^verbatim>\<open>params\<close> unbound, as
  the module has it; \<open>sample_env_bound\<close> binds it.

  The session-description parser stands for \<^verbatim>\<open>aiortc.sdp.SessionDescription.parse\<close>, which
  reads the version line with \<^verbatim>\<open>int(line.strip()[2:])\<close> and passes over lines it does not
  know. The stand-in raises \<^verbatim>\<open>ValueError\<close>, as \<^verbatim>\<open>int\<close> does, where the text starts with
  \<^verbatim>\<open>v=\<close> and the rest of that line holds an ASCII letter; it accepts every other text,
  the one without any SDP line included.
\<close>

definition is_letter :: "nat \<Rightarrow> bool" where
  "is_letter c = ((0x41 \<le> c \<and> c \<le> 0x5A) \<or> (0x61 \<le> c \<and> c \<le> 0x7A))"

definition version_field :: "pystr \<Rightarrow> pystr" where
  "version_field text = takeWhile (\<lambda>c. c \<noteq> 13 \<and> c \<noteq> 10) (drop 2 text)"

definition sample_sdp_parse :: "pystr \<Rightarrow> exn + pystr" where
  "sample_sdp_parse text =
     (if startswith text (str ''v='') \<and> list_ex is_letter (version_field text)
      then Inl (Raised ''ValueError'')
      else Inr text)"

definition answer :: pystr where
  "answer = str ''v=0'' @ CRLF @ str ''m=audio 35000 RTP/AVP 0'' @ CRLF"

definition sample_env :: "(pystr, unit, unit, pystr) env" where
  "sample_env =
     \<lparr>SIPMessage =
        (\<lambda>data. case map_of sample_requests data of
                  None \<Rightarrow> Inl (Raised ''SIPParseError'')
                | Some m \<Rightarrow> Inr m),
      SessionDescription_parse = sample_sdp_parse,
      params = None,
      get_ai_flavor = (\<lambda>p. Inr ()),
      Call = (\<lambda>tag sdp flavor. Inr answer),
      get_body = (\<lambda>c. Inr c),
      ADV_IP = str ''0.0.0.0''\<rparr>"

definition sample_env_bound :: "(pystr, unit, unit, pystr) env" where
  "sample_env_bound = sample_env\<lparr>params := Some ()\<rparr>"

text \<open>
  A connection: the object after \<^verbatim>\<open>__init__\<close>, with the draws \<open>3, 10, 17, ...\<close>, and
  \<^verbatim>\<open>connection_made\<close>. \<open>wrote chunks self\<close> is \<open>self\<close> with \<open>chunks\<close> as what its transport
  has been given.
\<close>

definition t0 :: transport_state where
  "t0 = \<lparr>peername = Some (str ''10.0.0.1''), written = [], closed = False\<rparr>"

definition conn0 :: "pystr protocol" where
  "conn0 = connection_made t0 (init (\<lambda>i. 7 * i + 3))"

definition wrote :: "bytes list \<Rightarrow> pystr protocol \<Rightarrow> pystr protocol" where
  "wrote chunks self = self\<lparr>transport := Some (t0\<lparr>written := chunks\<rparr>)\<rparr>"

text \<open>
  The wire text of a response to a sample request on \<open>conn0\<close>, whose tag is \<open>dkryFMT0\<close>:
  status, Call-ID, method, and the Content-Length value \<open>n\<close> with the body.
\<close>

definition response_text :: "string \<Rightarrow> string \<Rightarrow> string \<Rightarrow> string \<Rightarrow> bytes \<Rightarrow> bytes" where
  "response_text status cid m n body =
     ''SIP/2.0 '' @ status @ crlf
     @ ''Via: SIP/2.0/TCP 10.0.0.1:5060:branch=z9hG4bK1'' @ crlf
     @ ''To: <sip:ai@10.0.0.2>;tag=dkryFMT0'' @ crlf
     @ ''From: <sip:alice@10.0.0.1>;tag=f1'' @ crlf
     @ ''Call-ID: '' @ cid @ crlf
     @ ''Contact: <sip:ai@0.0.0.0;transport=tcp>'' @ crlf
     @ ''CSeq: 1 '' @ m @ crlf
     @ ''Allow: INVITE, ACK, CANCEL, OPTIONS, BYE'' @ crlf
     @ ''Content-Length: '' @ n @ crlf
     @ crlf @ body"

section \<open>Properties\<close>

subsection \<open>Evaluation\<close>

text \<open>
  The sample runs below are computed by the simplifier from the definitions; \<open>char_of\<close> on a
  numeral needs the lowest bit of \<open>1\<close>.
\<close>

lemma bit_Suc_0_0: "bit (Suc 0) (0::nat)"
  by (simp add: bit_Suc_0_iff)

lemmas sample_defs =
  sample_env_def sample_env_bound_def sample_requests_def request_text_def request_head_def
  request_view_def offer_def offer_blank_line_def multipart_def bad_version_def no_sdp_line_def answer_def crlf_def
  CRLF_def CRLFCRLF_def t0_def wrote_def response_text_def sample_sdp_parse_def
  version_field_def is_letter_def

lemmas code_defs =
  data_received_def invite_def create_call_def send_response_def send_def
  transport_write_def transport_close_def create_response_def response_lines_def
  via_line_def to_line_def from_line_def call_id_line_def cseq_line_def unpack2_def
  strip_rtcp_def split_def startswith_def encode_utf8_def utf8_bytes_def decode_utf8_def
  is_cont_def second_lo_def second_hi_def char_of_def bit_Suc_0_0 str_of_nat.simps

text \<open>The draws \<open>3, 10, 17, ...\<close> pick the tag \<^verbatim>\<open>dkryFMT0\<close>.\<close>

lemma did_conn0: "did conn0 = str ''dkryFMT0''"
  by code_simp

lemma conn0_eq:
  "conn0 = \<lparr>transport = Some t0, client_address = Some (str ''10.0.0.1''),
            did = str ''dkryFMT0'', currentCall = None\<rparr>"
  using did_conn0 by (simp add: conn0_def connection_made_def init_def t0_def)

subsection \<open>What request processing leaves alone\<close>

lemma send_fields:
  "send response self = Inr self'
   \<Longrightarrow> did self' = did self \<and> currentCall self' = currentCall self"
  by (auto simp: send_def transport_write_def split: option.splits sum.splits)

lemma send_response_fields:
  "did (snd (send_response response self)) = did self
   \<and> currentCall (snd (send_response response self)) = currentCall self"
  by (auto simp: send_response_def dest: send_fields split: sum.splits)

lemma create_call_did: "did (snd (create_call env message sdp self)) = did self"
  by (simp add: create_call_def Let_def split: option.splits sum.splits)

lemma invite_did: "did (snd (invite env message data self)) = did self"
proof -
  have a: "\<And>r s. did (snd (send_response r s)) = did s"
    by (simp add: send_response_fields)
  have b: "\<And>sdp s r s2. create_call env message sdp s = (r, s2) \<Longrightarrow> did s2 = did s"
    using create_call_did by (metis snd_conv)
  show ?thesis
    by (auto simp: invite_def a dest!: send_fields b split: sum.splits prod.splits)
qed

lemma data_received_did: "did (snd (data_received env data self)) = did self"
  by (auto simp: data_received_def invite_did send_response_fields transport_close_def
      split: sum.splits option.splits)

text \<open>A response depends on the object through \<^verbatim>\<open>self.did\<close> only.\<close>

lemma create_response_did:
  "did a = did b \<Longrightarrow> create_response env a m st body = create_response env b m st body"
  by (simp add: create_response_def response_lines_def split: sum.splits)

subsection \<open>The tag generator\<close>

lemma generate_length: "length (generate_unique_string rnd n) = n"
  by (simp add: generate_unique_string_def)

lemma generate_alnum: "set (generate_unique_string rnd n) \<subseteq> set characters"
proof -
  have "length characters = 62"
    by (simp add: characters_def)
  then show ?thesis
    by (auto simp: generate_unique_string_def)
qed

subsection \<open>The branches of \<^verbatim>\<open>data_received\<close>\<close>

lemma reply_written:
  assumes "transport self = Some t"
    and "encode_utf8 response = Inr chunk"
  shows "send_response (Some response) self
         = (None, self\<lparr>transport := Some (t\<lparr>written := written t @ [chunk]\<rparr>)\<rparr>)"
  using assms by (simp add: send_response_def send_def transport_write_def)

lemma bye_once:
  assumes "SIPMessage env data = Inr message"
    and "method' message = str ''BYE''"
    and "transport self = Some t"
    and "create_response env self message (str ''200 OK'') [] = Inr response"
    and "encode_utf8 response = Inr chunk"
  shows "data_received env data self
         = (None, self\<lparr>transport := Some (t\<lparr>written := written t @ [chunk]\<rparr>)\<rparr>)"
  using assms by (simp add: data_received_def reply_written)

text \<open>
  Line 109 evaluates the name \<^verbatim>\<open>params\<close>. Where it is unbound, as in the module, the
  \<^verbatim>\<open>try\<close> body raises \<^verbatim>\<open>NameError\<close> before \<^verbatim>\<open>Call\<close> is called, so the handler's 500 is
  the only final response an INVITE can get.
\<close>

lemma create_call_params_unbound:
  "params env = None \<Longrightarrow> create_call env message sdp self = (Inl NameError, self)"
  by (simp add: create_call_def)

text \<open>
  The INVITE branch when nothing raises before the \<^verbatim>\<open>try\<close>: the data holds exactly one
  blank line, the body decodes and the session-description parser accepts it. Then 100
  Trying is written, and after it one final response: the one the \<^verbatim>\<open>try\<close> body built, or
  500 when the body raised.
\<close>

lemma invite_two_responses:
  assumes "SIPMessage env data = Inr message"
    and "method' message = str ''INVITE''"
    and "transport self = Some t"
    and "create_response env self message (str ''100 Trying'') [] = Inr trying"
    and "encode_utf8 trying = Inr chunk1"
    and "unpack2 (split data CRLFCRLF) = Inr (hdrs, body)"
    and "decode_utf8 body = Inr oldSDP"
    and "SessionDescription_parse env (strip_rtcp oldSDP) = Inr sdp"
    and "create_call env message sdp
           (self\<lparr>transport := Some (t\<lparr>written := written t @ [chunk1]\<rparr>)\<rparr>) = (r, self2)"
    and "(case r of
            Inr ok \<Rightarrow> Inr ok
          | Inl e \<Rightarrow> create_response env self2 message (str ''500 Internal Server Error'') [])
         = Inr final"
    and "encode_utf8 final = Inr chunk2"
  shows "data_received env data self
         = (None, self2\<lparr>transport := Some (t\<lparr>written := written t @ [chunk1, chunk2]\<rparr>)\<rparr>)"
proof -
  let ?self1 = "self\<lparr>transport := Some (t\<lparr>written := written t @ [chunk1]\<rparr>)\<rparr>"
  have sent: "send (Some trying) self = Inr ?self1"
    using assms(3,5) by (simp add: send_def transport_write_def)
  have t2: "transport self2 = Some (t\<lparr>written := written t @ [chunk1]\<rparr>)"
    using assms(9)
    by (auto simp: create_call_def Let_def split: option.splits sum.splits)
  have last: "send_response (Some final) self2
        = (None, self2\<lparr>transport := Some (t\<lparr>written := written t @ [chunk1, chunk2]\<rparr>)\<rparr>)"
    using reply_written [OF t2 assms(11)] by simp
  show ?thesis
    using assms(1,2,4,6,7,8,9,10) sent last
    by (cases r) (simp_all add: data_received_def invite_def)
qed

text \<open>
  An ACK, on a connected transport: the branch binds no \<^verbatim>\<open>response\<close> and line 134 raises.
\<close>

lemma ack_always_raises:
  assumes "SIPMessage env data = Inr message"
    and "method' message = str ''ACK''"
    and "transport self = Some t"
  shows "data_received env data self = (Some UnboundLocalError, self)"
  using assms by (simp add: data_received_def send_response_def send_def)

text \<open>
  An exception of lines 83 to 91 of the INVITE branch (the unpacking, the decoding, the
  session-description parser) leaves the method after 100 Trying has been written.
\<close>

lemma exception_before_try_escapes:
  assumes "SIPMessage env data = Inr message"
    and "method' message = str ''INVITE''"
    and "transport self = Some t"
    and "create_response env self message (str ''100 Trying'') [] = Inr trying"
    and "encode_utf8 trying = Inr chunk1"
    and "(case unpack2 (split data CRLFCRLF) of
            Inl e \<Rightarrow> Inl e
          | Inr (hdrs, body) \<Rightarrow>
              (case decode_utf8 body of
                 Inl e \<Rightarrow> Inl e
               | Inr oldSDP \<Rightarrow> SessionDescription_parse env (strip_rtcp oldSDP)))
         = Inl e"
  shows "data_received env data self
         = (Some e, self\<lparr>transport := Some (t\<lparr>written := written t @ [chunk1]\<rparr>)\<rparr>)"
proof -
  have sent: "send (Some trying) self
              = Inr (self\<lparr>transport := Some (t\<lparr>written := written t @ [chunk1]\<rparr>)\<rparr>)"
    using assms(3,5) by (simp add: send_def transport_write_def)
  show ?thesis
    using assms(1,2,4,6) sent
    by (auto simp: data_received_def invite_def split: sum.splits prod.splits)
qed

subsection \<open>Content-Length and the encoded body\<close>

text \<open>
  The Content-Length line holds the number of code points of the body. For a body of
  ASCII characters that is also the number of bytes written.
\<close>

lemma content_length_line:
  assumes "response_lines env self request status_line body = Inr ls"
  shows "ls ! 8 = str ''Content-Length: '' @ str_of_nat (length body) \<and> ls ! 10 = body"
  using assms
  by (auto simp: response_lines_def split: sum.splits)

lemma encode_nat_ascii:
  "list_all (\<lambda>c. c < 0x80) s \<Longrightarrow> encode_nat s = Inr s"
  by (induction s) (simp_all add: utf8_bytes_def)

lemma encode_utf8_ascii_length:
  assumes "list_all (\<lambda>c. c < 0x80) s" and "encode_utf8 s = Inr chunk"
  shows "length chunk = length s"
  using assms by (auto simp: encode_utf8_def encode_nat_ascii)

subsection \<open>The sample INVITE\<close>

text \<open>
  The sample INVITE on \<open>conn0\<close>. With \<^verbatim>\<open>params\<close> unbound, as in the module, it is answered
  100 Trying and 500; with \<^verbatim>\<open>params\<close> bound and the stand-in \<^verbatim>\<open>Call\<close>, 100 Trying and 200
  OK with the answer as body, and the object holds the call.
\<close>

lemma invite_abc_unbound:
  "data_received sample_env (request_text ''INVITE'' ''abc123'' offer) conn0
   = (None,
      wrote [response_text ''100 Trying'' ''abc123'' ''INVITE'' ''0'' [],
             response_text ''500 Internal Server Error'' ''abc123'' ''INVITE'' ''0'' []]
        conn0)"
  by (simp add: conn0_eq sample_defs code_defs encode_nat_ascii del: encode_nat.simps)

lemma invite_abc_bound:
  "data_received sample_env_bound (request_text ''INVITE'' ''abc123'' offer) conn0
   = (None,
      wrote [response_text ''100 Trying'' ''abc123'' ''INVITE'' ''0'' [],
             response_text ''200 OK'' ''abc123'' ''INVITE'' ''30''
               (''v=0'' @ crlf @ ''m=audio 35000 RTP/AVP 0'' @ crlf)]
        (conn0\<lparr>currentCall := Some answer\<rparr>))"
  by (simp add: conn0_eq sample_defs code_defs encode_nat_ascii del: encode_nat.simps)

text \<open>
  A body without any SDP line passes the session-description parser, so the INVITE that
  carries it reaches the \<^verbatim>\<open>try\<close> and is answered like the sample INVITE: 100 Trying and,
  \<^verbatim>\<open>params\<close> being unbound, 500.
\<close>

lemma invite_without_sdp_line:
  "data_received sample_env (request_text ''INVITE'' ''abc123'' no_sdp_line) conn0
   = (None,
      wrote [response_text ''100 Trying'' ''abc123'' ''INVITE'' ''0'' [],
             response_text ''500 Internal Server Error'' ''abc123'' ''INVITE'' ''0'' []]
        conn0)"
  by (simp add: conn0_eq sample_defs code_defs encode_nat_ascii del: encode_nat.simps)

section \<open>The claims\<close>

subsection \<open>C1: the responses to an INVITE\<close>

text \<open>
  Claim C1: for every valid INVITE the server writes exactly one 100 Trying followed by
  exactly one final response, 200 OK with a non-empty body when Call creation succeeds or
  500 when it fails, never zero final responses. The code at a failing input: an INVITE
  with well-formed headers and a well-formed offer that ends with an empty line. Line 83
  splits the data at every blank line and unpacks the pieces into two names, so it raises
  \<^verbatim>\<open>ValueError\<close> outside any handler: 100 Trying has been written and no final response
  follows. (\<open>invite_two_responses\<close> above is what the branch does when
  lines 83 to 91 do not raise.)
\<close>

theorem invite_with_second_blank_line_gets_no_final_response:
  "data_received sample_env (request_text ''INVITE'' ''abc123'' offer_blank_line) conn0
   = (Some ValueError,
      wrote [response_text ''100 Trying'' ''abc123'' ''INVITE'' ''0'' []] conn0)"
  by (simp add: conn0_eq sample_defs code_defs encode_nat_ascii del: encode_nat.simps)

subsection \<open>C2: no exception leaves request processing\<close>

text \<open>
  Claim C2: for every request whose header block parses, processing completes without an
  uncaught exception; SDP failure, Call-creation failure, an unknown method and ACK are
  each turned into a SIP response. The code at a failing input, an ACK: its branch binds
  no \<^verbatim>\<open>response\<close>, and line 134 reads the unbound local, so \<^verbatim>\<open>UnboundLocalError\<close> leaves
  \<^verbatim>\<open>data_received\<close> and nothing is written.
\<close>

theorem ack_raises_unbound_local_error:
  "data_received sample_env (request_text ''ACK'' ''abc123'' []) conn0
   = (Some UnboundLocalError, conn0)"
  by (simp add: conn0_eq sample_defs code_defs encode_nat_ascii del: encode_nat.simps)

subsection \<open>C3: BYE\<close>

text \<open>
  C3 as stated says that a BYE removes the dialog, so that a second BYE with the same
  Call-ID is not a duplicate success. With \<^verbatim>\<open>params\<close> bound, the INVITE for \<^verbatim>\<open>abc123\<close> is
  answered 200 OK; of the two BYEs for \<^verbatim>\<open>abc123\<close> that follow, the second is answered 200
  OK like the first.
\<close>

theorem second_bye_is_answered_200_again:
  "data_received sample_env_bound (request_text ''BYE'' ''abc123'' [])
     (snd (data_received sample_env_bound (request_text ''BYE'' ''abc123'' [])
        (snd (data_received sample_env_bound (request_text ''INVITE'' ''abc123'' offer)
           conn0))))
   = (None,
      wrote [response_text ''100 Trying'' ''abc123'' ''INVITE'' ''0'' [],
             response_text ''200 OK'' ''abc123'' ''INVITE'' ''30''
               (''v=0'' @ crlf @ ''m=audio 35000 RTP/AVP 0'' @ crlf),
             response_text ''200 OK'' ''abc123'' ''BYE'' ''0'' [],
             response_text ''200 OK'' ''abc123'' ''BYE'' ''0'' []]
        (conn0\<lparr>currentCall := Some answer\<rparr>))"
proof -
  let ?c1 = "response_text ''100 Trying'' ''abc123'' ''INVITE'' ''0'' []"
  let ?c2 = "response_text ''200 OK'' ''abc123'' ''INVITE'' ''30''
               (''v=0'' @ crlf @ ''m=audio 35000 RTP/AVP 0'' @ crlf)"
  let ?c3 = "response_text ''200 OK'' ''abc123'' ''BYE'' ''0'' []"
  let ?held = "conn0\<lparr>currentCall := Some answer\<rparr>"
  have bye1: "data_received sample_env_bound (request_text ''BYE'' ''abc123'' [])
                (wrote [?c1, ?c2] ?held) = (None, wrote [?c1, ?c2, ?c3] ?held)"
    by (simp add: conn0_eq sample_defs code_defs encode_nat_ascii del: encode_nat.simps)
  have bye2: "data_received sample_env_bound (request_text ''BYE'' ''abc123'' [])
                (wrote [?c1, ?c2, ?c3] ?held) = (None, wrote [?c1, ?c2, ?c3, ?c3] ?held)"
    by (simp add: conn0_eq sample_defs code_defs encode_nat_ascii del: encode_nat.simps)
  show ?thesis
    by (simp only: invite_abc_bound snd_conv bye1 bye2)
qed

text \<open>
  Claim C3, amended: receiving BYE replies 200 OK, as one response and without an
  exception (the echoed headers being present and the response encodable). The module
  keeps no registry of dialogs: the same BYE received again is answered 200 OK again.
\<close>

theorem bye_replies_200_each_time:
  assumes "SIPMessage env data = Inr message"
    and "method' message = str ''BYE''"
    and "transport self = Some t"
    and "create_response env self message (str ''200 OK'') [] = Inr response"
    and "encode_utf8 response = Inr chunk"
  shows "fst (data_received env data self) = None
       \<and> transport (snd (data_received env data self))
           = Some (t\<lparr>written := written t @ [chunk]\<rparr>)
       \<and> fst (data_received env data (snd (data_received env data self))) = None
       \<and> transport (snd (data_received env data (snd (data_received env data self))))
           = Some (t\<lparr>written := written t @ [chunk, chunk]\<rparr>)"
proof -
  let ?t1 = "t\<lparr>written := written t @ [chunk]\<rparr>"
  let ?s1 = "self\<lparr>transport := Some ?t1\<rparr>"
  have first: "data_received env data self = (None, ?s1)"
    using assms by (rule bye_once)
  have "create_response env ?s1 message (str ''200 OK'') [] = Inr response"
    using assms(4) create_response_did [of ?s1 self env message "str ''200 OK''" "[]"]
    by simp
  then have "data_received env data ?s1
             = (None, ?s1\<lparr>transport := Some (?t1\<lparr>written := written ?t1 @ [chunk]\<rparr>)\<rparr>)"
    using assms(1,2,5) by (intro bye_once) simp_all
  with first show ?thesis by simp
qed

text \<open>The amended C3 on the sample BYE: 200 OK, twice.\<close>

theorem bye_replies_200_each_time_witness:
  "fst (data_received sample_env (request_text ''BYE'' ''abc123'' []) conn0) = None
   \<and> transport (snd (data_received sample_env (request_text ''BYE'' ''abc123'' []) conn0))
       = Some (t0\<lparr>written := [response_text ''200 OK'' ''abc123'' ''BYE'' ''0'' []]\<rparr>)
   \<and> fst (data_received sample_env (request_text ''BYE'' ''abc123'' [])
       (snd (data_received sample_env (request_text ''BYE'' ''abc123'' []) conn0))) = None
   \<and> transport (snd (data_received sample_env (request_text ''BYE'' ''abc123'' [])
       (snd (data_received sample_env (request_text ''BYE'' ''abc123'' []) conn0))))
       = Some (t0\<lparr>written := [response_text ''200 OK'' ''abc123'' ''BYE'' ''0'' [],
                                response_text ''200 OK'' ''abc123'' ''BYE'' ''0'' []]\<rparr>)"
proof -
  have 1: "SIPMessage sample_env (request_text ''BYE'' ''abc123'' [])
           = Inr (request_view ''BYE'' ''abc123'')"
    by (simp add: sample_defs)
  have 2: "method' (request_view ''BYE'' ''abc123'') = str ''BYE''"
    by (simp add: request_view_def)
  have 3: "transport conn0 = Some t0"
    by (simp add: conn0_eq)
  have 4: "create_response sample_env conn0 (request_view ''BYE'' ''abc123'') (str ''200 OK'') []
           = Inr (str (response_text ''200 OK'' ''abc123'' ''BYE'' ''0'' []))"
    by (simp add: conn0_eq sample_defs code_defs encode_nat_ascii del: encode_nat.simps)
  have 5: "encode_utf8 (str (response_text ''200 OK'' ''abc123'' ''BYE'' ''0'' []))
           = Inr (response_text ''200 OK'' ''abc123'' ''BYE'' ''0'' [])"
    by (simp add: sample_defs code_defs)
  show ?thesis
    using bye_replies_200_each_time [OF 1 2 3 4 5] by (simp add: t0_def)
qed

subsection \<open>C4: an INVITE whose body fails SDP parsing\<close>

text \<open>
  Claim C4: if an INVITE's body fails SDP parsing, the server responds with a single 500
  Internal Server Error, creates no dialog or call state, and the connection stays open.
  The code at a failing input, an INVITE whose body is the version line \<^verbatim>\<open>v=x\<close>:
  \<^verbatim>\<open>SessionDescription.parse\<close> is called on line 91, before the \<^verbatim>\<open>try\<close> of line 107, and
  raises \<^verbatim>\<open>ValueError\<close> on the version, so the exception leaves \<^verbatim>\<open>data_received\<close>. The only
  response written is 100 Trying; no 500 follows. (\<open>exception_before_try_escapes\<close> above
  is the same for every parser and every body the parser rejects.)
\<close>

theorem sdp_failure_is_not_answered_500:
  "data_received sample_env (request_text ''INVITE'' ''abc123'' bad_version) conn0
   = (Some (Raised ''ValueError''),
      wrote [response_text ''100 Trying'' ''abc123'' ''INVITE'' ''0'' []] conn0)"
  by (simp add: conn0_eq sample_defs code_defs encode_nat_ascii del: encode_nat.simps)

subsection \<open>C5: Content-Length\<close>

text \<open>
  Claim C5: in every generated response, also with a non-ASCII body, the Content-Length
  value is the byte length of the body as transmitted. The code at a body with one
  non-ASCII character, \<^verbatim>\<open>s=caf\<close> followed by U+00E9 and CRLF: line 147 takes \<^verbatim>\<open>len\<close> of the
  \<^verbatim>\<open>str\<close>, 8 code points, and the response is encoded afterwards, where the body is 9
  bytes long.
\<close>

theorem content_length_counts_code_points:
  "(case create_response sample_env conn0 (request_view ''INVITE'' ''abc123'') (str ''200 OK'')
           (str ''s=caf'' @ [233] @ CRLF) of
      Inl e \<Rightarrow> Inl e
    | Inr r \<Rightarrow> encode_utf8 r)
   = Inr (response_text ''200 OK'' ''abc123'' ''INVITE'' ''8''
            (''s=caf'' @ [CHR 0xC3, CHR 0xA9] @ crlf))
   \<and> length (''s=caf'' @ [CHR 0xC3, CHR 0xA9] @ crlf) = 9"
  by (simp add: conn0_eq sample_defs code_defs)

subsection \<open>C6: the local tag\<close>

text \<open>
  C6 as stated says that the tag is generated once per dialog and is unique among the
  dialogs. Two INVITEs with the Call-IDs \<^verbatim>\<open>abc123\<close> and \<^verbatim>\<open>xyz789\<close> on one connection: all four
  responses carry the connection's one tag, \<^verbatim>\<open>dkryFMT0\<close>, both in the module as it is,
  where each INVITE ends in 500, and with \<^verbatim>\<open>params\<close> bound, where both are answered 200 OK.
\<close>

theorem two_call_ids_share_one_tag:
  "data_received sample_env (request_text ''INVITE'' ''xyz789'' offer)
     (snd (data_received sample_env (request_text ''INVITE'' ''abc123'' offer) conn0))
   = (None,
      wrote [response_text ''100 Trying'' ''abc123'' ''INVITE'' ''0'' [],
             response_text ''500 Internal Server Error'' ''abc123'' ''INVITE'' ''0'' [],
             response_text ''100 Trying'' ''xyz789'' ''INVITE'' ''0'' [],
             response_text ''500 Internal Server Error'' ''xyz789'' ''INVITE'' ''0'' []]
        conn0)
   \<and> data_received sample_env_bound (request_text ''INVITE'' ''xyz789'' offer)
     (snd (data_received sample_env_bound (request_text ''INVITE'' ''abc123'' offer) conn0))
   = (None,
      wrote [response_text ''100 Trying'' ''abc123'' ''INVITE'' ''0'' [],
             response_text ''200 OK'' ''abc123'' ''INVITE'' ''30''
               (''v=0'' @ crlf @ ''m=audio 35000 RTP/AVP 0'' @ crlf),
             response_text ''100 Trying'' ''xyz789'' ''INVITE'' ''0'' [],
             response_text ''200 OK'' ''xyz789'' ''INVITE'' ''30''
               (''v=0'' @ crlf @ ''m=audio 35000 RTP/AVP 0'' @ crlf)]
        (conn0\<lparr>currentCall := Some answer\<rparr>))"
proof -
  let ?a1 = "response_text ''100 Trying'' ''abc123'' ''INVITE'' ''0'' []"
  let ?a5 = "response_text ''500 Internal Server Error'' ''abc123'' ''INVITE'' ''0'' []"
  let ?a2 = "response_text ''200 OK'' ''abc123'' ''INVITE'' ''30''
               (''v=0'' @ crlf @ ''m=audio 35000 RTP/AVP 0'' @ crlf)"
  let ?x1 = "response_text ''100 Trying'' ''xyz789'' ''INVITE'' ''0'' []"
  let ?x5 = "response_text ''500 Internal Server Error'' ''xyz789'' ''INVITE'' ''0'' []"
  let ?x2 = "response_text ''200 OK'' ''xyz789'' ''INVITE'' ''30''
               (''v=0'' @ crlf @ ''m=audio 35000 RTP/AVP 0'' @ crlf)"
  let ?held = "conn0\<lparr>currentCall := Some answer\<rparr>"
  have unbound: "data_received sample_env (request_text ''INVITE'' ''xyz789'' offer)
                   (wrote [?a1, ?a5] conn0) = (None, wrote [?a1, ?a5, ?x1, ?x5] conn0)"
    by (simp add: conn0_eq sample_defs code_defs encode_nat_ascii del: encode_nat.simps)
  have bound: "data_received sample_env_bound (request_text ''INVITE'' ''xyz789'' offer)
                 (wrote [?a1, ?a2] ?held) = (None, wrote [?a1, ?a2, ?x1, ?x2] ?held)"
    by (simp add: conn0_eq sample_defs code_defs encode_nat_ascii del: encode_nat.simps)
  show ?thesis
    by (simp only: invite_abc_unbound invite_abc_bound snd_conv unbound bound simp_thms)
qed

text \<open>
  Claim C6, amended: the tag \<^verbatim>\<open>did\<close> is a string of 8 characters, each a letter or a digit,
  generated once per connection, when the protocol object is constructed. Processing a
  chunk of data never changes it, and every response built on the connection appends it
  to the To header as \<^verbatim>\<open>;tag=\<close>.
\<close>

theorem tag_is_fixed_per_connection:
  "length (did (init rnd :: 'call protocol)) = 8
   \<and> set (did (init rnd :: 'call protocol)) \<subseteq> set characters
   \<and> did (snd (data_received env data (self :: 'call protocol))) = did self
   \<and> (response_lines env self request status_line body = Inr ls \<longrightarrow>
        (\<exists>t. hdr_To (headers request) = Some t
             \<and> ls ! 2 = str ''To: '' @ raw t @ str '';tag='' @ did self))"
  by (auto simp: init_def generate_length data_received_did response_lines_def to_line_def
      dest: subsetD [OF generate_alnum] split: sum.splits option.splits)

text \<open>The amended C6 on \<open>conn0\<close> and the sample OPTIONS request.\<close>

theorem tag_is_fixed_per_connection_witness:
  "length (did (init (\<lambda>i. 7 * i + 3) :: pystr protocol)) = 8
   \<and> did (snd (data_received sample_env (request_text ''OPTIONS'' ''abc123'' []) conn0))
       = did conn0
   \<and> response_lines sample_env conn0 (request_view ''OPTIONS'' ''abc123'') (str ''200 OK'') []
       = Inr (map str
           [''SIP/2.0 200 OK'',
            ''Via: SIP/2.0/TCP 10.0.0.1:5060:branch=z9hG4bK1'',
            ''To: <sip:ai@10.0.0.2>;tag=dkryFMT0'',
            ''From: <sip:alice@10.0.0.1>;tag=f1'',
            ''Call-ID: abc123'',
            ''Contact: <sip:ai@0.0.0.0;transport=tcp>'',
            ''CSeq: 1 OPTIONS'',
            ''Allow: INVITE, ACK, CANCEL, OPTIONS, BYE'',
            ''Content-Length: 0'',
            [],
            []])
   \<and> (\<exists>t. hdr_To (headers (request_view ''OPTIONS'' ''abc123'')) = Some t
          \<and> str ''To: <sip:ai@10.0.0.2>;tag=dkryFMT0''
              = str ''To: '' @ raw t @ str '';tag='' @ did conn0)"
proof -
  let ?ls = "map str
           [''SIP/2.0 200 OK'',
            ''Via: SIP/2.0/TCP 10.0.0.1:5060:branch=z9hG4bK1'',
            ''To: <sip:ai@10.0.0.2>;tag=dkryFMT0'',
            ''From: <sip:alice@10.0.0.1>;tag=f1'',
            ''Call-ID: abc123'',
            ''Contact: <sip:ai@0.0.0.0;transport=tcp>'',
            ''CSeq: 1 OPTIONS'',
            ''Allow: INVITE, ACK, CANCEL, OPTIONS, BYE'',
            ''Content-Length: 0'',
            [],
            []]"
  have ls: "response_lines sample_env conn0 (request_view ''OPTIONS'' ''abc123'')
              (str ''200 OK'') [] = Inr ?ls"
    by (simp add: conn0_eq sample_defs code_defs encode_nat_ascii del: encode_nat.simps)
  have third: "?ls ! 2 = str ''To: <sip:ai@10.0.0.2>;tag=dkryFMT0''"
    by simp
  from tag_is_fixed_per_connection
    [of "\<lambda>i. 7 * i + 3" sample_env "request_text ''OPTIONS'' ''abc123'' []" conn0
        "request_view ''OPTIONS'' ''abc123''" "str ''200 OK''" "[]" ?ls]
  show ?thesis
    using ls unfolding third by blast
qed

subsection \<open>C7: the To header of a response\<close>

text \<open>
  C7 as stated says that no tag is appended to a To header that already carries one. For
  a request whose To header is \<^verbatim>\<open><sip:ai@10.0.0.2>;tag=r9\<close> the To line of the response
  has both tags.
\<close>

theorem tagged_to_header_gets_a_second_tag:
  "to_line (did conn0)
     ((headers (request_view ''BYE'' ''abc123''))
        \<lparr>hdr_To := Some \<lparr>raw = str ''<sip:ai@10.0.0.2>;tag=r9''\<rparr>\<rparr>)
   = Inr (str ''To: <sip:ai@10.0.0.2>;tag=r9;tag=dkryFMT0'')"
  by (simp add: conn0_eq sample_defs code_defs encode_nat_ascii del: encode_nat.simps)

text \<open>
  Claim C7, amended: \<^verbatim>\<open>create_response\<close> appends \<^verbatim>\<open>;tag=\<close> and the connection's tag to
  the echoed To header of every response, whatever the header holds; the connection has
  its tag from construction on. A tag that the request's To header already carries is
  kept as it is, and the connection's tag follows it.
\<close>

theorem to_header_always_gets_the_tag:
  assumes "hdr_To (headers request) = Some t"
    and "response_lines env self request status_line body = Inr ls"
  shows "ls ! 2 = str ''To: '' @ raw t @ str '';tag='' @ did self"
  using assms
  by (auto simp: response_lines_def to_line_def split: sum.splits option.splits)

text \<open>The amended C7 on a BYE whose To header carries the tag \<^verbatim>\<open>r9\<close>.\<close>

theorem to_header_always_gets_the_tag_witness:
  "response_lines sample_env conn0
     ((request_view ''BYE'' ''abc123'')
        \<lparr>headers := (headers (request_view ''BYE'' ''abc123''))
           \<lparr>hdr_To := Some \<lparr>raw = str ''<sip:ai@10.0.0.2>;tag=r9''\<rparr>\<rparr>\<rparr>)
     (str ''200 OK'') []
   = Inr (map str
       [''SIP/2.0 200 OK'',
        ''Via: SIP/2.0/TCP 10.0.0.1:5060:branch=z9hG4bK1'',
        ''To: <sip:ai@10.0.0.2>;tag=r9;tag=dkryFMT0'',
        ''From: <sip:alice@10.0.0.1>;tag=f1'',
        ''Call-ID: abc123'',
        ''Contact: <sip:ai@0.0.0.0;transport=tcp>'',
        ''CSeq: 1 BYE'',
        ''Allow: INVITE, ACK, CANCEL, OPTIONS, BYE'',
        ''Content-Length: 0'',
        [],
        []])
   \<and> str ''To: <sip:ai@10.0.0.2>;tag=r9;tag=dkryFMT0''
       = str ''To: '' @ str ''<sip:ai@10.0.0.2>;tag=r9'' @ str '';tag='' @ did conn0"
proof -
  let ?request = "(request_view ''BYE'' ''abc123'')
        \<lparr>headers := (headers (request_view ''BYE'' ''abc123''))
           \<lparr>hdr_To := Some \<lparr>raw = str ''<sip:ai@10.0.0.2>;tag=r9''\<rparr>\<rparr>\<rparr>"
  let ?ls = "map str
       [''SIP/2.0 200 OK'',
        ''Via: SIP/2.0/TCP 10.0.0.1:5060:branch=z9hG4bK1'',
        ''To: <sip:ai@10.0.0.2>;tag=r9;tag=dkryFMT0'',
        ''From: <sip:alice@10.0.0.1>;tag=f1'',
        ''Call-ID: abc123'',
        ''Contact: <sip:ai@0.0.0.0;transport=tcp>'',
        ''CSeq: 1 BYE'',
        ''Allow: INVITE, ACK, CANCEL, OPTIONS, BYE'',
        ''Content-Length: 0'',
        [],
        []]"
  have to: "hdr_To (headers ?request) = Some \<lparr>raw = str ''<sip:ai@10.0.0.2>;tag=r9''\<rparr>"
    by simp
  have ls: "response_lines sample_env conn0 ?request (str ''200 OK'') [] = Inr ?ls"
    by (simp add: conn0_eq sample_defs code_defs encode_nat_ascii del: encode_nat.simps)
  have third: "?ls ! 2 = str ''To: <sip:ai@10.0.0.2>;tag=r9;tag=dkryFMT0''"
    by simp
  from to_header_always_gets_the_tag [OF to ls]
  have "str ''To: <sip:ai@10.0.0.2>;tag=r9;tag=dkryFMT0''
        = str ''To: '' @ str ''<sip:ai@10.0.0.2>;tag=r9'' @ str '';tag='' @ did conn0"
    unfolding third by simp
  with ls show ?thesis by blast
qed

subsection \<open>C8: header block and body\<close>

text \<open>
  Claim C8: the header block is split from the body at the first blank line, also when
  the body holds a further blank line, the whole remainder being the body. The code at an
  INVITE with a multipart body: \<^verbatim>\<open>data.split\<close> of line 83 has no \<^verbatim>\<open>maxsplit\<close> and cuts at
  both blank lines, the three pieces do not unpack into \<^verbatim>\<open>headers, body\<close>, and
  \<^verbatim>\<open>ValueError\<close> leaves \<^verbatim>\<open>data_received\<close> after 100 Trying.
\<close>

theorem body_with_blank_line_is_cut_in_two:
  "split (request_text ''INVITE'' ''abc123'' multipart) CRLFCRLF
     = [request_head ''INVITE'' ''abc123'',
        ''--b1'' @ crlf @ ''Content-Type: application/sdp'',
        offer @ ''--b1--'' @ crlf]
   \<and> data_received sample_env (request_text ''INVITE'' ''abc123'' multipart) conn0
     = (Some ValueError,
        wrote [response_text ''100 Trying'' ''abc123'' ''INVITE'' ''0'' []] conn0)"
  by (simp add: conn0_eq sample_defs code_defs encode_nat_ascii del: encode_nat.simps)

subsection \<open>C9: the Via header of a response\<close>

text \<open>
  Claim C9: the Via header of every response reproduces the sent-protocol, the sent-by
  address and the \<^verbatim>\<open>;branch=\<close> parameter of the request's first Via. The code at the sample
  INVITE, whose Via is \<^verbatim>\<open>SIP/2.0/TCP 10.0.0.1:5060;branch=z9hG4bK1\<close>: line 140 puts
  \<^verbatim>\<open>:branch=\<close>, with a colon, after the address.
\<close>

theorem via_branch_follows_a_colon:
  "map_sum id (\<lambda>ls. ls ! 1)
     (response_lines sample_env conn0 (request_view ''INVITE'' ''abc123'') (str ''200 OK'') [])
   = Inr (str ''Via: SIP/2.0/TCP 10.0.0.1:5060:branch=z9hG4bK1'')"
  by (simp add: conn0_eq sample_defs code_defs encode_nat_ascii del: encode_nat.simps)

subsection \<open>C10: requests other than INVITE\<close>

text \<open>
  Claim C10: processing a request whose method is OPTIONS, BYE, ACK or unrecognised
  leaves \<^verbatim>\<open>did\<close> and \<^verbatim>\<open>currentCall\<close> as they were; only the INVITE branch assigns
  \<^verbatim>\<open>currentCall\<close>. Stated for all data that do not parse as an INVITE, which covers the
  four cases and data whose header block does not parse, whether the method returns or
  raises.
\<close>

theorem only_invite_touches_dialog_state:
  assumes "\<And>message. SIPMessage env data = Inr message \<Longrightarrow> method' message \<noteq> str ''INVITE''"
  shows "did (snd (data_received env data self)) = did self
         \<and> currentCall (snd (data_received env data self)) = currentCall self"
  using assms
  by (auto simp: data_received_def send_response_fields transport_close_def
      split: sum.splits option.splits)

text \<open>
  C10 on a connection that holds a call, for the sample ACK (which raises), BYE, OPTIONS
  and INFO requests.
\<close>

theorem only_invite_touches_dialog_state_witness:
  "list_all
     (\<lambda>m. did (snd (data_received sample_env (request_text m ''abc123'' [])
                     (conn0\<lparr>currentCall := Some answer\<rparr>))) = did conn0
          \<and> currentCall (snd (data_received sample_env (request_text m ''abc123'' [])
                     (conn0\<lparr>currentCall := Some answer\<rparr>))) = Some answer)
     [''ACK'', ''BYE'', ''OPTIONS'', ''INFO'']"
proof -
  have parse: "SIPMessage sample_env (request_text m ''abc123'' [])
               = Inr (request_view m ''abc123'')"
    if "m \<in> {''ACK'', ''BYE'', ''OPTIONS'', ''INFO''}" for m
    using that by (auto simp: sample_defs)
  have other: "method' message \<noteq> str ''INVITE''"
    if "m \<in> {''ACK'', ''BYE'', ''OPTIONS'', ''INFO''}"
      and "SIPMessage sample_env (request_text m ''abc123'' []) = Inr message" for m message
    using that parse [OF that(1)] by (auto simp: request_view_def)
  have "did (snd (data_received sample_env (request_text m ''abc123'' [])
                     (conn0\<lparr>currentCall := Some answer\<rparr>))) = did conn0
        \<and> currentCall (snd (data_received sample_env (request_text m ''abc123'' [])
                     (conn0\<lparr>currentCall := Some answer\<rparr>))) = Some answer"
    if "m \<in> {''ACK'', ''BYE'', ''OPTIONS'', ''INFO''}" for m
    using only_invite_touches_dialog_state
      [of sample_env "request_text m ''abc123'' []" "conn0\<lparr>currentCall := Some answer\<rparr>"]
      other [OF that]
    by simp
  then show ?thesis by simp
qed

end
